theory Spec2Isabelle
  imports Main
begin

section \<open>JavaScript values, objects and the heap\<close>

text \<open>
  The program is JavaScript. A primitive value is \<open>undefined\<close>, \<open>null\<close>, a boolean, a
  number or a string. Every finite number of the language is a dyadic rational and has
  exactly one representative: \<open>PNum n\<close> is the integer \<open>n\<close> (\<open>PNum 0\<close> is \<open>+0\<close>),
  \<open>PFrac m k\<close> is the number \<open>(2m + 1) / 2^(k + 1)\<close>, which is not an integer, and
  \<open>PNegZero\<close> is \<open>-0\<close>; then there are the two infinities and \<open>NaN\<close>. The code never
  calculates with a number: it asks for its \<open>typeof\<close> and its truthiness, and writes it
  to JSON or into a message.
\<close>

datatype prim =
    PUndefined
  | PNull
  | PBool bool
  | PNum int
  | PFrac int nat
  | PNegZero
  | PInfinity
  | PNegInfinity
  | PNaN
  | PStr string

text \<open>
  What an object can hold is a primitive or a reference to an object in the heap; two
  references are the same object exactly when their addresses are equal. A value is
  that, or a function, which carries its source text. So the objects of this model are
  data: no member of an object and no element of an array is a function, and there are
  no accessor properties, symbols or exotic objects.
\<close>

datatype data =
    Prim prim
  | Ref nat

datatype jsval =
    Data data
  | JFun string

abbreviation JUndefined :: jsval where "JUndefined \<equiv> Data (Prim PUndefined)"
abbreviation JNull :: jsval where "JNull \<equiv> Data (Prim PNull)"
abbreviation JBool :: "bool \<Rightarrow> jsval" where "JBool b \<equiv> Data (Prim (PBool b))"
abbreviation JNum :: "int \<Rightarrow> jsval" where "JNum n \<equiv> Data (Prim (PNum n))"
abbreviation JNegZero :: jsval where "JNegZero \<equiv> Data (Prim PNegZero)"
abbreviation JNaN :: jsval where "JNaN \<equiv> Data (Prim PNaN)"
abbreviation JStr :: "string \<Rightarrow> jsval" where "JStr s \<equiv> Data (Prim (PStr s))"
abbreviation JRef :: "nat \<Rightarrow> jsval" where "JRef a \<equiv> Data (Ref a)"

abbreviation DUndefined :: data where "DUndefined \<equiv> Prim PUndefined"
abbreviation DNull :: data where "DNull \<equiv> Prim PNull"
abbreviation DBool :: "bool \<Rightarrow> data" where "DBool b \<equiv> Prim (PBool b)"
abbreviation DNum :: "int \<Rightarrow> data" where "DNum n \<equiv> Prim (PNum n)"
abbreviation DStr :: "string \<Rightarrow> data" where "DStr s \<equiv> Prim (PStr s)"

text \<open>
  An object is a plain object (its own enumerable properties, in enumeration order, each key
  once) or an array. The heap is the list of all objects allocated so far; the address of an
  object is its index, and allocation appends.
\<close>

datatype obj =
    Obj "(string \<times> data) list"
  | Arr "data list"

type_synonym heap = "obj list"

fun typeof_prim :: "prim \<Rightarrow> string" where
  "typeof_prim PUndefined = ''undefined''"
| "typeof_prim PNull = ''object''"
| "typeof_prim (PBool b) = ''boolean''"
| "typeof_prim (PNum n) = ''number''"
| "typeof_prim (PFrac m k) = ''number''"
| "typeof_prim PNegZero = ''number''"
| "typeof_prim PInfinity = ''number''"
| "typeof_prim PNegInfinity = ''number''"
| "typeof_prim PNaN = ''number''"
| "typeof_prim (PStr s) = ''string''"

fun typeof :: "jsval \<Rightarrow> string" where
  "typeof (Data (Prim p)) = typeof_prim p"
| "typeof (Data (Ref a)) = ''object''"
| "typeof (JFun f) = ''function''"

text \<open>Truthiness, as \<open>!v\<close>, \<open>v || w\<close> and \<open>if (v)\<close> decide it.\<close>

fun truthy_prim :: "prim \<Rightarrow> bool" where
  "truthy_prim PUndefined = False"
| "truthy_prim PNull = False"
| "truthy_prim (PBool b) = b"
| "truthy_prim (PNum n) = (n \<noteq> 0)"
| "truthy_prim (PFrac m k) = True"
| "truthy_prim PNegZero = False"
| "truthy_prim PInfinity = True"
| "truthy_prim PNegInfinity = True"
| "truthy_prim PNaN = False"
| "truthy_prim (PStr s) = (s \<noteq> [])"

fun truthy :: "jsval \<Rightarrow> bool" where
  "truthy (Data (Prim p)) = truthy_prim p"
| "truthy (Data (Ref a)) = True"
| "truthy (JFun f) = True"

text \<open>\<open>a || b\<close> on values (the right operand is written as a value here; where the source
  calls a function on the right, the model tests \<open>truthy\<close> itself).\<close>

definition js_or :: "jsval \<Rightarrow> jsval \<Rightarrow> jsval" where
  "js_or a b = (if truthy a then a else b)"

text \<open>
  Reading the property \<open>k\<close> of a value that is not \<open>null\<close> or \<open>undefined\<close>. The keys
  the program reads (\<open>provider\<close>, \<open>method\<close>, \<open>status\<close>, ...) are on no prototype, so a
  key an object does not own, any of these keys on an array, and any key of a primitive
  or a function read as \<open>undefined\<close>. An address outside the heap owns nothing. Reading a
  property of \<open>null\<close> or \<open>undefined\<close> throws \<open>TypeError\<close>; every caller below has that
  branch before it reads.
\<close>

fun getp :: "heap \<Rightarrow> jsval \<Rightarrow> string \<Rightarrow> jsval" where
  "getp h (Data (Ref a)) k =
     (if a < length h
      then (case h ! a of
              Obj ps \<Rightarrow> (case map_of ps k of Some v \<Rightarrow> Data v | None \<Rightarrow> JUndefined)
            | Arr vs \<Rightarrow> JUndefined)
      else JUndefined)"
| "getp h v k = JUndefined"

section \<open>Errors and their messages\<close>

text \<open>
  The error classes of \<open>src/helpers/errors.js\<close> that the modelled code throws, the
  \<open>TypeError\<close> the engine throws on a property read of \<open>null\<close>, on a value that cannot
  be converted to a string and on a circular structure given to \<open>JSON.stringify\<close>, the
  \<open>SyntaxError\<close> of \<open>JSON.parse\<close>, and the error of the handler registry. A message is
  its text, or, where the text has the digits of a number that the engine formats, the
  literal text and the interpolated value apart.
\<close>

datatype message =
    Text string
  | Interp string jsval

datatype error =
    PactumInteractionError message
  | PactumConfigurationError message
  | HandlerError message
  | TypeError
  | SyntaxError

lemma card_fresh_less:
  assumes "a \<notin> set st" and "\<not> n \<le> a"
  shows "card ({..<n} - set st) - Suc 0 < card ({..<n::nat} - set st)"
proof -
  have "a \<in> {..<n} - set st" using assms by simp
  moreover have "finite ({..<n} - set st)" by simp
  ultimately have "0 < card ({..<n} - set st)" by (metis card_gt_0_iff empty_iff)
  then show ?thesis by simp
qed

text \<open>
  \<open>ToString\<close>, which a template literal applies to the value it interpolates. The result
  is \<open>Inr (Some s)\<close> for the string \<open>s\<close>, \<open>Inr None\<close> when the conversion succeeds with a
  text that has the digits of a number other than zero in it (the model does not
  format them), and \<open>Inl TypeError\<close> when the conversion throws.

  A plain object without an own \<open>toString\<close> is converted by \<open>Object.prototype.toString\<close>.
  With an own \<open>toString\<close>, which is not callable in this model, the conversion goes on to
  \<open>valueOf\<close>, which is an own member that is not callable or \<open>Object.prototype.valueOf\<close>
  returning the object itself: no primitive comes out, and the engine throws
  \<open>TypeError\<close>. An array is converted by \<open>join\<close>: the conversions of its elements,
  separated by commas, with nothing for \<open>undefined\<close>, for \<open>null\<close> and (as the engine of
  Node does) for an array that is being converted already; \<open>st\<close> holds those arrays.
\<close>

fun prim_text :: "prim \<Rightarrow> string option" where
  "prim_text PUndefined = Some ''undefined''"
| "prim_text PNull = Some ''null''"
| "prim_text (PBool b) = Some (if b then ''true'' else ''false'')"
| "prim_text (PNum n) = (if n = 0 then Some ''0'' else None)"
| "prim_text (PFrac m k) = None"
| "prim_text PNegZero = Some ''0''"
| "prim_text PInfinity = Some ''Infinity''"
| "prim_text PNegInfinity = Some ''-Infinity''"
| "prim_text PNaN = Some ''NaN''"
| "prim_text (PStr s) = Some s"

fun join_texts :: "(error + string option) list \<Rightarrow> error + string option" where
  "join_texts [] = Inr (Some [])"
| "join_texts [r] = r"
| "join_texts (r # rs) =
     (case r of
        Inl e \<Rightarrow> Inl e
      | Inr x \<Rightarrow>
          (case join_texts rs of
             Inl e \<Rightarrow> Inl e
           | Inr y \<Rightarrow>
               Inr (case x of
                      None \<Rightarrow> None
                    | Some a \<Rightarrow> (case y of None \<Rightarrow> None | Some b \<Rightarrow> Some (a @ '','' @ b)))))"

function to_text :: "heap \<Rightarrow> nat list \<Rightarrow> data \<Rightarrow> error + string option" where
  "to_text h st (Prim p) = Inr (prim_text p)"
| "to_text h st (Ref a) =
     (if length h \<le> a then Inl TypeError
      else (case h ! a of
              Obj ps \<Rightarrow>
                (if map_of ps ''toString'' = None then Inr (Some ''[object Object]'')
                 else Inl TypeError)
            | Arr vs \<Rightarrow>
                (if a \<in> set st then Inr (Some [])
                 else join_texts
                        (map (\<lambda>x. if x = Prim PUndefined \<or> x = Prim PNull then Inr (Some [])
                                  else to_text h (a # st) x) vs))))"
  by pat_completeness auto
termination
  by (relation "measure (\<lambda>(h, st, v). card ({..<length h} - set st))")
     (auto intro: card_fresh_less)

text \<open>A function is converted to its source text.\<close>

definition js_ToString :: "heap \<Rightarrow> jsval \<Rightarrow> error + string option" where
  "js_ToString h v = (case v of Data d \<Rightarrow> to_text h [] d | JFun src \<Rightarrow> Inr (Some src))"

text \<open>The template literal \<open>`pre${v}`\<close>.\<close>

definition template :: "heap \<Rightarrow> string \<Rightarrow> jsval \<Rightarrow> error + message" where
  "template h pre v =
     (case js_ToString h v of
        Inl e \<Rightarrow> Inl e
      | Inr None \<Rightarrow> Inr (Interp pre v)
      | Inr (Some s) \<Rightarrow> Inr (Text (pre @ s)))"

text \<open>
  What \<open>throw new K(`pre${v}`)\<close> throws: the message is built first, so when the
  conversion of \<open>v\<close> throws, its \<open>TypeError\<close> is what the caller gets.
\<close>

definition thrown :: "(message \<Rightarrow> error) \<Rightarrow> heap \<Rightarrow> string \<Rightarrow> jsval \<Rightarrow> error" where
  "thrown K h pre v = (case template h pre v of Inl e \<Rightarrow> e | Inr m \<Rightarrow> K m)"

text \<open>The values that \<open>ToString\<close> converts without throwing.\<close>

definition printable :: "heap \<Rightarrow> jsval \<Rightarrow> bool" where
  "printable h v = (case js_ToString h v of Inl e \<Rightarrow> False | Inr r \<Rightarrow> True)"

section \<open>The interaction model (\<open>src/models/interaction.js\<close>)\<close>

definition ALLOWED_REQUEST_METHODS :: "string set" where
  "ALLOWED_REQUEST_METHODS = {''GET'', ''POST'', ''PUT'', ''DELETE'', ''PATCH'', ''HEAD''}"

record InteractionRequest =
  "method" :: jsval
  path :: jsval
  headers :: jsval
  query :: jsval
  body :: jsval
  ignoreBody :: jsval
  ignoreQuery :: jsval

text \<open>
  The constructor of \<open>InteractionRequest\<close>. Reading a property of \<open>null\<close> or
  \<open>undefined\<close> throws \<open>TypeError\<close>.
\<close>

definition InteractionRequest_new :: "heap \<Rightarrow> jsval \<Rightarrow> error + InteractionRequest" where
  "InteractionRequest_new h request =
     (if request = JNull \<or> request = JUndefined then Inl TypeError
      else
        Inr \<lparr> method = getp h request ''method'',
              path = getp h request ''path'',
              headers = getp h request ''headers'',
              query = getp h request ''query'',
              body = getp h request ''body'',
              ignoreBody =
                (if typeof (getp h request ''ignoreBody'') = ''boolean''
                 then getp h request ''ignoreBody'' else JBool False),
              ignoreQuery =
                (if typeof (getp h request ''ignoreQuery'') = ''boolean''
                 then getp h request ''ignoreQuery'' else JBool False) \<rparr>)"

text \<open>
  \<open>validateInteraction\<close>: \<open>None\<close> when every check passes, otherwise the error thrown.
  The checks are in the order of the source. \<open>typeof null\<close> is \<open>object\<close>, so \<open>null\<close>
  passes each \<open>typeof ... !== 'object'\<close> test and the destructuring or property read that
  follows throws \<open>TypeError\<close>.
\<close>

definition validateInteraction :: "heap \<Rightarrow> jsval \<Rightarrow> bool \<Rightarrow> error option" where
  "validateInteraction h rawInteraction mock =
    (if typeof rawInteraction \<noteq> ''object'' then
       Some (PactumInteractionError (Text ''Invalid interaction provided''))
     else if rawInteraction = JNull then Some TypeError
     else
       let provider = getp h rawInteraction ''provider'';
           state = getp h rawInteraction ''state'';
           uponReceiving = getp h rawInteraction ''uponReceiving'';
           withRequest = getp h rawInteraction ''withRequest'';
           willRespondWith = getp h rawInteraction ''willRespondWith''
       in
       if \<not> mock \<and> (typeof provider \<noteq> ''string'' \<or> \<not> truthy provider) then
         Some (thrown PactumInteractionError h ''Invalid provider name provided - '' provider)
       else if \<not> mock \<and> (typeof state \<noteq> ''string'' \<or> \<not> truthy state) then
         Some (thrown PactumInteractionError h ''Invalid state provided - '' state)
       else if \<not> mock \<and> (typeof uponReceiving \<noteq> ''string'' \<or> \<not> truthy uponReceiving) then
         Some (thrown PactumInteractionError h
                 ''Invalid upon receiving description provided - '' uponReceiving)
       else if typeof withRequest \<noteq> ''object'' then
         Some (thrown PactumInteractionError h
                 ''Invalid interaction request provided - '' withRequest)
       else if withRequest = JNull then Some TypeError
       else if typeof (getp h withRequest ''method'') \<noteq> ''string''
               \<or> \<not> truthy (getp h withRequest ''method'') then
         Some (thrown PactumInteractionError h
                 ''Invalid interaction request method provided - ''
                 (getp h withRequest ''method''))
       else if (case getp h withRequest ''method'' of
                  Data (Prim (PStr m)) \<Rightarrow> m \<notin> ALLOWED_REQUEST_METHODS | _ \<Rightarrow> True) then
         Some (thrown PactumInteractionError h
                 ''Invalid interaction request method provided - ''
                 (getp h withRequest ''method''))
       else if typeof (getp h withRequest ''path'') \<noteq> ''string''
               \<or> \<not> truthy (getp h withRequest ''path'') then
         Some (thrown PactumInteractionError h
                 ''Invalid interaction request path provided - ''
                 (getp h withRequest ''path''))
       else if \<not> mock \<and> truthy (getp h withRequest ''ignoreQuery'') then
         Some (PactumInteractionError (Text ''Pact interaction won't support ignore query''))
       else if \<not> mock \<and> truthy (getp h withRequest ''ignoreBody'') then
         Some (PactumInteractionError (Text ''Pact interaction won't support ignore body''))
       else if typeof willRespondWith \<noteq> ''object'' then
         Some (thrown PactumInteractionError h
                 ''Invalid interaction request provided - '' willRespondWith)
       else if willRespondWith = JNull then Some TypeError
       else if typeof (getp h willRespondWith ''status'') \<noteq> ''number'' then
         Some (thrown PactumInteractionError h
                 ''Invalid interaction response status provided - ''
                 (getp h willRespondWith ''status''))
       else None)"

section \<open>Object graphs as trees, and JSON\<close>

text \<open>
  The finite tree a value unfolds to when every reference is followed. \<open>deep h st v\<close> keeps
  the stack \<open>st\<close> of the objects it is inside of, as \<open>JSON.stringify\<close> does: meeting one of
  them again, the structure is circular and there is no tree. Two values are deep-equal
  when they unfold to the same tree; \<open>-0\<close> and \<open>+0\<close> are different leaves. An address
  outside the heap holds no object; a heap that JavaScript builds has no such reference,
  and the model gives no tree for one.
\<close>

datatype tree =
    Leaf prim
  | TArr "tree list"
  | TObj "(string \<times> tree) list"

function deep :: "heap \<Rightarrow> nat list \<Rightarrow> data \<Rightarrow> tree option" where
  "deep h st (Prim p) = Some (Leaf p)"
| "deep h st (Ref a) =
     (if a \<in> set st \<or> length h \<le> a then None
      else (case h ! a of
              Arr vs \<Rightarrow> map_option TArr (those (map (deep h (a # st)) vs))
            | Obj ps \<Rightarrow>
                map_option TObj
                  (those (map (\<lambda>(k, v). map_option (Pair k) (deep h (a # st) v)) ps))))"
  by pat_completeness auto
termination
  by (relation "measure (\<lambda>(h, st, v). card ({..<length h} - set st))")
     (auto intro: card_fresh_less)

text \<open>
  The JSON text \<open>JSON.stringify\<close> writes and \<open>JSON.parse\<close> reads, as its syntax tree. A
  number in it is finite: an integer, or \<open>(2m + 1) / 2^(k + 1)\<close> for \<open>JsFrac m k\<close>.
\<close>

datatype json =
    JsNull
  | JsBool bool
  | JsNum int
  | JsFrac int nat
  | JsStr string
  | JsArr "json list"
  | JsObj "(string \<times> json) list"

text \<open>
  What \<open>JSON.stringify\<close> writes for a tree: nothing (\<open>None\<close>) for \<open>undefined\<close>; \<open>null\<close>
  for \<open>NaN\<close> and the infinities; \<open>0\<close> for \<open>-0\<close>; an array element that writes nothing
  becomes \<open>null\<close>, an object member that writes nothing is left out. The objects of the
  model hold no function, so there is no \<open>toJSON\<close> method to call; a member of that name
  is written like any other.
\<close>

fun encode_prim :: "prim \<Rightarrow> json option" where
  "encode_prim PUndefined = None"
| "encode_prim PNull = Some JsNull"
| "encode_prim (PBool b) = Some (JsBool b)"
| "encode_prim (PNum n) = Some (JsNum n)"
| "encode_prim (PFrac m k) = Some (JsFrac m k)"
| "encode_prim PNegZero = Some (JsNum 0)"
| "encode_prim PInfinity = Some JsNull"
| "encode_prim PNegInfinity = Some JsNull"
| "encode_prim PNaN = Some JsNull"
| "encode_prim (PStr s) = Some (JsStr s)"

fun encode :: "tree \<Rightarrow> json option" where
  "encode (Leaf p) = encode_prim p"
| "encode (TArr ts) =
     Some (JsArr (map (\<lambda>t. case encode t of None \<Rightarrow> JsNull | Some j \<Rightarrow> j) ts))"
| "encode (TObj ps) =
     Some (JsObj (concat (map (\<lambda>(k, t). case encode t of None \<Rightarrow> [] | Some j \<Rightarrow> [(k, j)]) ps)))"

text \<open>\<open>JSON.stringify(v)\<close>; for a function it returns \<open>undefined\<close>, no text.\<close>

definition JSON_stringify :: "heap \<Rightarrow> jsval \<Rightarrow> error + json option" where
  "JSON_stringify h v =
     (case v of
        Data d \<Rightarrow> (case deep h [] d of None \<Rightarrow> Inl TypeError | Some t \<Rightarrow> Inr (encode t))
      | JFun f \<Rightarrow> Inr None)"

text \<open>
  \<open>JSON.parse\<close> builds new objects for the arrays and objects of the text and shares
  nothing with the objects that existed before.
\<close>

fun alloc :: "heap \<Rightarrow> json \<Rightarrow> heap \<times> data"
  and alloc_list :: "heap \<Rightarrow> json list \<Rightarrow> heap \<times> data list"
  and alloc_props :: "heap \<Rightarrow> (string \<times> json) list \<Rightarrow> heap \<times> (string \<times> data) list"
where
  "alloc h JsNull = (h, Prim PNull)"
| "alloc h (JsBool b) = (h, Prim (PBool b))"
| "alloc h (JsNum n) = (h, Prim (PNum n))"
| "alloc h (JsFrac m k) = (h, Prim (PFrac m k))"
| "alloc h (JsStr s) = (h, Prim (PStr s))"
| "alloc h (JsArr js) = (case alloc_list h js of (h1, vs) \<Rightarrow> (h1 @ [Arr vs], Ref (length h1)))"
| "alloc h (JsObj ps) = (case alloc_props h ps of (h1, qs) \<Rightarrow> (h1 @ [Obj qs], Ref (length h1)))"
| "alloc_list h [] = (h, [])"
| "alloc_list h (j # js) =
     (case alloc h j of (h1, v) \<Rightarrow>
        (case alloc_list h1 js of (h2, vs) \<Rightarrow> (h2, v # vs)))"
| "alloc_props h [] = (h, [])"
| "alloc_props h ((k, j) # ps) =
     (case alloc h j of (h1, v) \<Rightarrow>
        (case alloc_props h1 ps of (h2, qs) \<Rightarrow> (h2, (k, v) # qs)))"

definition JSON_parse :: "heap \<Rightarrow> json option \<Rightarrow> error + heap \<times> jsval" where
  "JSON_parse h text =
     (case text of
        None \<Rightarrow> Inl SyntaxError
      | Some j \<Rightarrow> (case alloc h j of (h1, d) \<Rightarrow> Inr (h1, Data d)))"

text \<open>
  The trees JSON writes and reads back unchanged: no \<open>undefined\<close>, no \<open>-0\<close>, no infinity
  and no \<open>NaN\<close> anywhere in them.
\<close>

fun json_prim :: "prim \<Rightarrow> bool" where
  "json_prim PNull = True"
| "json_prim (PBool b) = True"
| "json_prim (PNum n) = True"
| "json_prim (PFrac m k) = True"
| "json_prim (PStr s) = True"
| "json_prim p = False"

fun json_value :: "tree \<Rightarrow> bool" where
  "json_value (Leaf p) = json_prim p"
| "json_value (TArr ts) = list_all json_value ts"
| "json_value (TObj ps) = list_all (\<lambda>(k, t). json_value t) ps"

text \<open>The tree a JSON text stands for.\<close>

fun decode :: "json \<Rightarrow> tree" where
  "decode JsNull = Leaf PNull"
| "decode (JsBool b) = Leaf (PBool b)"
| "decode (JsNum n) = Leaf (PNum n)"
| "decode (JsFrac m k) = Leaf (PFrac m k)"
| "decode (JsStr s) = Leaf (PStr s)"
| "decode (JsArr js) = TArr (map decode js)"
| "decode (JsObj ps) = TObj (map (\<lambda>(k, j). (k, decode j)) ps)"

text \<open>
  \<open>same_on n h' H\<close>: the heap \<open>H\<close> holds every object of \<open>h'\<close> from address \<open>n\<close> on, as it
  is in \<open>h'\<close>. The objects below \<open>n\<close> may have been changed in any way, and \<open>H\<close> may hold
  more objects than \<open>h'\<close>. \<open>outside st n m\<close>: no address of \<open>st\<close> lies from \<open>n\<close> up to, but
  not including, \<open>m\<close>.
\<close>

definition same_on :: "nat \<Rightarrow> heap \<Rightarrow> heap \<Rightarrow> bool" where
  "same_on n h' H \<longleftrightarrow> length h' \<le> length H \<and> (\<forall>i \<in> {n ..< length h'}. H ! i = h' ! i)"

definition outside :: "nat list \<Rightarrow> nat \<Rightarrow> nat \<Rightarrow> bool" where
  "outside st n m \<longleftrightarrow> (\<forall>a \<in> set st. a < n \<or> m \<le> a)"

section \<open>Collaborators outside the source\<close>

text \<open>
  Modelled from the spec: the module \<open>helpers/helper\<close> is required by
  \<open>src/models/interaction.js\<close> but is not among the sources, so its two functions are
  parameters. \<open>setValueFromMatcher\<close> is the value-matcher transform, "a pure function
  \<open>transform(body: any) \<rightarrow> any\<close>": it reads the heap, may build new objects (returned
  as the list to append to the heap) and changes no object that exists. \<open>getRandomId\<close> is
  the id generator; its argument is the number of ids generated before.
\<close>

record helper =
  setValueFromMatcher :: "heap \<Rightarrow> jsval \<Rightarrow> obj list \<times> jsval"
  getRandomId :: "nat \<Rightarrow> jsval"

section \<open>Responses and interactions\<close>

record InteractionResponse =
  status :: jsval
  headers :: jsval
  rawBody :: jsval
  body :: jsval

text \<open>
  The constructor of \<open>InteractionResponse\<close>. It returns the heap as well: the copy made
  through JSON and the transform allocate.
\<close>

definition InteractionResponse_new ::
  "helper \<Rightarrow> heap \<Rightarrow> jsval \<Rightarrow> (error + InteractionResponse) \<times> heap" where
  "InteractionResponse_new hp h response =
     (if response = JNull \<or> response = JUndefined then (Inl TypeError, h)
      else
        let b = getp h response ''body'' in
        if truthy b \<and> typeof b = ''object'' then
          (case JSON_stringify h b of
             Inl e \<Rightarrow> (Inl e, h)
           | Inr text \<Rightarrow>
               (case JSON_parse h text of
                  Inl e \<Rightarrow> (Inl e, h)
                | Inr (h1, raw) \<Rightarrow>
                    (case setValueFromMatcher hp h1 b of
                       (new, v) \<Rightarrow>
                         (Inr \<lparr> status = getp h response ''status'',
                                headers = getp h response ''headers'',
                                rawBody = raw,
                                body = v \<rparr>,
                          h1 @ new))))
        else
          (case setValueFromMatcher hp h b of
             (new, v) \<Rightarrow>
               (Inr \<lparr> status = getp h response ''status'',
                      headers = getp h response ''headers'',
                      rawBody = b,
                      body = v \<rparr>,
                h @ new)))"

record Interaction =
  id' :: jsval
  port :: jsval
  mock :: bool
  consumer :: jsval
  provider :: jsval
  state :: jsval
  uponReceiving :: jsval
  rawInteraction :: jsval
  withRequest :: InteractionRequest
  willRespondWith :: InteractionResponse

text \<open>
  The injected server is outside the source. The model records the calls the control plane
  makes on it, in order, and takes each call to return normally.
\<close>

datatype server_call =
    Start jsval
  | Stop jsval
  | AddDefaultInteraction jsval Interaction
  | RemoveDefaultInteraction jsval jsval
  | RemoveDefaultInteractions jsval

text \<open>
  The state the program works on: the heap, \<open>config.mock.port\<close> and
  \<open>config.pact.consumer\<close>, the number of ids generated so far, the calls made on
  \<open>_server\<close>, the module's map \<open>interactions\<close>, and the interactions handed to
  \<open>store.addInteraction\<close>. Every operation returns its outcome and the state it leaves,
  also when it throws.
\<close>

record world =
  heap :: heap
  mock_port :: jsval
  pact_consumer :: jsval
  generated :: nat
  server :: "server_call list"
  interactions :: "jsval \<Rightarrow> Interaction option"
  store :: "Interaction list"

text \<open>
  The constructor of \<open>Interaction\<close>. \<open>helper.getRandomId()\<close> is called only when the id
  given is falsy.
\<close>

definition Interaction_new ::
  "helper \<Rightarrow> world \<Rightarrow> jsval \<Rightarrow> bool \<Rightarrow> (error + Interaction) \<times> world" where
  "Interaction_new hp s raw isMock =
     (case validateInteraction (heap s) raw isMock of
        Some e \<Rightarrow> (Inl e, s)
      | None \<Rightarrow>
          let h = heap s;
              s1 = (if truthy (getp h raw ''id'') then s
                    else s\<lparr> generated := Suc (generated s) \<rparr>);
              the_id = (if truthy (getp h raw ''id'') then getp h raw ''id''
                        else getRandomId hp (generated s))
          in
          (case InteractionRequest_new h (getp h raw ''withRequest'') of
             Inl e \<Rightarrow> (Inl e, s1)
           | Inr request \<Rightarrow>
               (case InteractionResponse_new hp h (getp h raw ''willRespondWith'') of
                  (Inl e, h') \<Rightarrow> (Inl e, s1\<lparr> heap := h' \<rparr>)
                | (Inr response, h') \<Rightarrow>
                    (Inr \<lparr> id' = the_id,
                           port = js_or (getp h raw ''port'') (mock_port s),
                           mock = isMock,
                           consumer = js_or (getp h raw ''consumer'') (pact_consumer s),
                           provider = getp h raw ''provider'',
                           state = getp h raw ''state'',
                           uponReceiving = getp h raw ''uponReceiving'',
                           rawInteraction = raw,
                           withRequest = request,
                           willRespondWith = response \<rparr>,
                     s1\<lparr> heap := h' \<rparr>))))"

section \<open>The mock control plane (class \<open>Mock\<close>)\<close>

text \<open>A parameter with the default \<open>config.mock.port\<close>: the default is taken when the
  argument is \<open>undefined\<close>.\<close>

definition port_or_default :: "world \<Rightarrow> jsval \<Rightarrow> jsval" where
  "port_or_default s p = (if p = JUndefined then mock_port s else p)"

definition start :: "world \<Rightarrow> jsval \<Rightarrow> (error + unit) \<times> world" where
  "start s p =
     (let port = port_or_default s p in
      if typeof port \<noteq> ''number'' then
        (Inl (thrown PactumConfigurationError (heap s)
                ''Invalid port number given to start the mock server - '' port), s)
      else (Inr (), s\<lparr> server := server s @ [Start port] \<rparr>))"

definition stop :: "world \<Rightarrow> jsval \<Rightarrow> (error + unit) \<times> world" where
  "stop s p =
     (let port = port_or_default s p in
      if typeof port \<noteq> ''number'' then
        (Inl (thrown PactumConfigurationError (heap s)
                ''Invalid port number given to stop the mock server - '' port), s)
      else (Inr (), s\<lparr> server := server s @ [Stop port] \<rparr>))"

definition setDefaultPort :: "world \<Rightarrow> jsval \<Rightarrow> (error + unit) \<times> world" where
  "setDefaultPort s p =
     (if typeof p \<noteq> ''number'' then
        (Inl (thrown PactumConfigurationError (heap s) ''Invalid default port number - '' p), s)
      else (Inr (), s\<lparr> mock_port := p \<rparr>))"


text \<open>\<open>Array.isArray\<close>, and the elements of an array.\<close>

definition isArray :: "heap \<Rightarrow> jsval \<Rightarrow> bool" where
  "isArray h v =
     (case v of
        Data (Ref a) \<Rightarrow> a < length h \<and> (case h ! a of Arr vs \<Rightarrow> True | Obj ps \<Rightarrow> False)
      | _ \<Rightarrow> False)"

definition elements :: "heap \<Rightarrow> jsval \<Rightarrow> jsval list" where
  "elements h v =
     (case v of
        Data (Ref a) \<Rightarrow>
          (if a < length h then (case h ! a of Arr vs \<Rightarrow> map Data vs | Obj ps \<Rightarrow> []) else [])
      | _ \<Rightarrow> [])"



text \<open>A \<open>Map\<close> takes \<open>-0\<close> and \<open>+0\<close> for the same key.\<close>

definition map_key :: "jsval \<Rightarrow> jsval" where
  "map_key v = (if v = JNegZero then JNum 0 else v)"

definition addDefaultPactInteraction ::
  "helper \<Rightarrow> world \<Rightarrow> jsval \<Rightarrow> (error + jsval) \<times> world" where
  "addDefaultPactInteraction hp s interaction =
     (case Interaction_new hp s interaction False of
        (Inl e, s') \<Rightarrow> (Inl e, s')
      | (Inr interactionObj, s') \<Rightarrow>
          (Inr (id' interactionObj),
           s'\<lparr> interactions := (interactions s')(map_key (id' interactionObj) \<mapsto> interactionObj),
               server := server s' @ [AddDefaultInteraction (id' interactionObj) interactionObj],
               store := store s' @ [interactionObj] \<rparr>))"

text \<open>The \<open>for\<close> loop of \<open>addDefaultPactInteractions\<close>.\<close>

fun pact_loop :: "helper \<Rightarrow> world \<Rightarrow> jsval list \<Rightarrow> jsval list \<Rightarrow> (error + jsval list) \<times> world"
where
  "pact_loop hp s [] ids = (Inr ids, s)"
| "pact_loop hp s (x # xs) ids =
     (case Interaction_new hp s x False of
        (Inl e, s') \<Rightarrow> (Inl e, s')
      | (Inr interactionObj, s') \<Rightarrow>
          pact_loop hp
            (s'\<lparr> server := server s' @ [AddDefaultInteraction (id' interactionObj) interactionObj] \<rparr>)
            xs (ids @ [id' interactionObj]))"

definition addDefaultPactInteractions ::
  "helper \<Rightarrow> world \<Rightarrow> jsval \<Rightarrow> (error + jsval list) \<times> world" where
  "addDefaultPactInteractions hp s arr =
     (if \<not> isArray (heap s) arr then
        (Inl (thrown PactumConfigurationError (heap s)
                ''Invalid pact interactions array passed - '' arr), s)
      else pact_loop hp s (elements (heap s) arr) [])"

definition removeDefaultInteraction :: "world \<Rightarrow> jsval \<Rightarrow> jsval \<Rightarrow> (error + unit) \<times> world" where
  "removeDefaultInteraction s interactionId p =
     (let port = port_or_default s p in
      if typeof interactionId \<noteq> ''string'' \<or> \<not> truthy interactionId then
        (Inl (thrown PactumConfigurationError (heap s)
                ''Invalid interaction id - '' interactionId), s)
      else if typeof port \<noteq> ''number'' then
        (Inl (thrown PactumConfigurationError (heap s) ''Invalid port number - '' port), s)
      else (Inr (), s\<lparr> server := server s @ [RemoveDefaultInteraction interactionId port] \<rparr>))"

definition removeDefaultInteractions :: "world \<Rightarrow> jsval \<Rightarrow> (error + unit) \<times> world" where
  "removeDefaultInteractions s p =
     (Inr (), s\<lparr> server := server s @ [RemoveDefaultInteractions (port_or_default s p)] \<rparr>)"

section \<open>The named handler registry\<close>

text \<open>
  Modelled from the spec: the registry module (\<open>exports/handler\<close>) is not among the
  sources; only its tests are. One registry per handler kind maps a name to a function,
  and the kind enters only through its label in the message of a failed lookup.
  \<open>add(name, func)\<close> "fails with \<open>`name` is required\<close> if \<open>name\<close> is absent or empty
  text; fails with \<open>`func` is required\<close> if \<open>func\<close> is not a callable value. On
  success, stores/overwrites the mapping unconditionally." A name is "non-empty text",
  so a name that is no text at all is refused like an absent one. \<open>get(name)\<close> "fails with
  \<open>Custom <Kind> Handler Not Found - <name>\<close> if no mapping exists; otherwise returns
  the stored callable." No name that is not text has a mapping; the spec does not say
  how such a name is written into the message, and the message keeps it apart.
\<close>

type_synonym registry = "string \<Rightarrow> jsval option"

definition handler_add :: "registry \<Rightarrow> jsval \<Rightarrow> jsval \<Rightarrow> error + registry" where
  "handler_add r name func =
     (case name of
        Data (Prim (PStr n)) \<Rightarrow>
          (if n = [] then Inl (HandlerError (Text ''`name` is required''))
           else if typeof func \<noteq> ''function'' then Inl (HandlerError (Text ''`func` is required''))
           else Inr (r(n \<mapsto> func)))
      | _ \<Rightarrow> Inl (HandlerError (Text ''`name` is required'')))"

definition handler_get :: "string \<Rightarrow> registry \<Rightarrow> jsval \<Rightarrow> error + jsval" where
  "handler_get label r name =
     (case name of
        Data (Prim (PStr n)) \<Rightarrow>
          (case r n of
             Some f \<Rightarrow> Inr f
           | None \<Rightarrow>
               Inl (HandlerError (Text (''Custom '' @ label @ '' Handler Not Found - '' @ n))))
      | _ \<Rightarrow>
          Inl (HandlerError (Interp (''Custom '' @ label @ '' Handler Not Found - '') name)))"

section \<open>Concrete collaborators for the examples\<close>

text \<open>
  A helper whose transform returns its argument and whose ids are \<open>r\<close>, \<open>rr\<close>, ..., and
  the state of a fresh process with a given heap. The examples below run the model on
  them.
\<close>

definition plain_helper :: helper where
  "plain_helper =
     \<lparr> setValueFromMatcher = (\<lambda>h v. ([], v)),
       getRandomId = (\<lambda>n. JStr (replicate (Suc n) (CHR ''r''))) \<rparr>"

definition fresh_world :: "heap \<Rightarrow> world" where
  "fresh_world h =
     \<lparr> heap = h, mock_port = JNum 9393, pact_consumer = JStr ''consumer'', generated = 0,
       server = [], interactions = Map.empty, store = [] \<rparr>"


text \<open>
  Raw interactions for the examples; the interaction is the object at address 0 of each
  heap. The first gives an empty id, port 0 and an empty consumer. The second has the
  method \<open>get\<close>, in lower case, and no provider. The third asks to ignore the query and
  has no provider.
\<close>

definition falsy_fields_heap :: heap where
  "falsy_fields_heap =
     [Obj [(''id'', DStr []), (''port'', DNum 0), (''consumer'', DStr []),
           (''withRequest'', Ref 1), (''willRespondWith'', Ref 2)],
      Obj [(''method'', DStr ''GET''), (''path'', DStr ''/api/projects'')],
      Obj [(''status'', DNum 200)]]"







definition pact_batch_heap :: heap where
  "pact_batch_heap =
     [Obj [(''id'', DStr ''p1''), (''provider'', DStr ''projects-service''),
           (''state'', DStr ''there is a project''),
           (''uponReceiving'', DStr ''a request for the project''),
           (''withRequest'', Ref 1), (''willRespondWith'', Ref 2)],
      Obj [(''method'', DStr ''GET''), (''path'', DStr ''/api/projects'')],
      Obj [(''status'', DNum 200)],
      Arr [Ref 0]]"

text \<open>
  Two responses, at address 0 of each heap: one whose body is
  \<open>{ name: 'pactum', tags: ['mock', null] }\<close>, and one whose body is
  \<open>{ name: undefined }\<close>.
\<close>

definition nested_body_heap :: heap where
  "nested_body_heap =
     [Obj [(''status'', DNum 200), (''body'', Ref 1)],
      Obj [(''name'', DStr ''pactum''), (''tags'', Ref 2)],
      Arr [DStr ''mock'', DNull]]"

definition undefined_member_heap :: heap where
  "undefined_member_heap =
     [Obj [(''status'', DNum 200), (''body'', Ref 1)],
      Obj [(''name'', DUndefined)]]"

text \<open>
  The object \<open>{ toString: null }\<close>, which cannot be converted to a string, and a pact
  interaction with the method \<open>get\<close> whose provider is such an object.
\<close>

definition no_toString_heap :: heap where
  "no_toString_heap = [Obj [(''toString'', DNull)]]"


text \<open>The two kinds of error that the construction of an \<open>Interaction\<close> throws.\<close>

definition interaction_failure :: "error \<Rightarrow> bool" where
  "interaction_failure e =
     (case e of TypeError \<Rightarrow> True | PactumInteractionError m \<Rightarrow> True | _ \<Rightarrow> False)"

section \<open>Properties\<close>

subsection \<open>Messages\<close>

text \<open>
  The conversion of a value to a string throws nothing but \<open>TypeError\<close>. So a
  \<open>throw new K(`pre${v}`)\<close> throws \<open>K\<close> with its message when \<open>v\<close> can be converted,
  and \<open>TypeError\<close> when it cannot.
\<close>

lemma join_texts_error: "join_texts rs = Inl e \<Longrightarrow> Inl e \<in> set rs"
  by (induction rs rule: join_texts.induct) (auto split: sum.splits)

lemma to_text_error: "to_text h st d = Inl e \<Longrightarrow> e = TypeError"
proof (induction h st d rule: to_text.induct)
  case (1 h st p)
  then show ?case by simp
next
  case (2 h st a)
  show ?case
  proof (cases "length h \<le> a")
    case True
    with "2.prems" show ?thesis by simp
  next
    case False
    show ?thesis
    proof (cases "h ! a")
      case (Obj ps)
      with False "2.prems" show ?thesis by (simp split: if_splits)
    next
      case (Arr vs)
      show ?thesis
      proof (cases "a \<in> set st")
        case True
        with False Arr "2.prems" show ?thesis by simp
      next
        case notin: False
        from False Arr notin "2.prems"
        have "Inl e \<in> set (map (\<lambda>x. if x = Prim PUndefined \<or> x = Prim PNull then Inr (Some [])
                                  else to_text h (a # st) x) vs)"
          by (intro join_texts_error) simp
        then obtain x where x: "x \<in> set vs" "\<not> (x = Prim PUndefined \<or> x = Prim PNull)"
          "to_text h (a # st) x = Inl e"
          by (auto split: if_splits)
        show ?thesis
          using "2.IH" [OF False Arr notin x(1) x(2) x(3)] .
      qed
    qed
  qed
qed

lemma js_ToString_error: "js_ToString h v = Inl e \<Longrightarrow> e = TypeError"
  by (cases v) (auto simp: js_ToString_def dest: to_text_error)

lemma thrown_cases:
  "thrown K h pre v = TypeError \<or> thrown K h pre v = K (Interp pre v)
   \<or> (\<exists>s. thrown K h pre v = K (Text (pre @ s)))"
  by (auto simp: thrown_def template_def split: sum.splits option.splits
      dest: js_ToString_error)

lemma thrown_printable:
  "printable h v \<Longrightarrow>
   thrown K h pre v = K (Interp pre v) \<or> (\<exists>s. thrown K h pre v = K (Text (pre @ s)))"
  by (auto simp: thrown_def template_def printable_def split: sum.splits option.splits)

lemma thrown_unprintable: "\<not> printable h v \<Longrightarrow> thrown K h pre v = TypeError"
  by (auto simp: thrown_def template_def printable_def split: sum.splits option.splits
      dest: js_ToString_error)

lemma thrown_string [simp]: "thrown K h pre (JStr s) = K (Text (pre @ s))"
  by (simp add: thrown_def template_def js_ToString_def)

lemma thrown_undefined [simp]: "thrown K h pre JUndefined = K (Text (pre @ ''undefined''))"
  by (simp add: thrown_def template_def js_ToString_def)

subsection \<open>Construction on \<open>null\<close>\<close>

text \<open>
  Claim C2 says that every input that is not a structured object, \<open>null\<close> included, is
  rejected with the \<open>Invalid interaction provided\<close> error and with no other kind of
  failure. The first lemma shows this for every value whose \<open>typeof\<close> is not \<open>object\<close>.
  For \<open>null\<close> the code behaves differently: \<open>typeof null\<close> is \<open>object\<close>, the first check
  lets it through, and destructuring it throws \<open>TypeError\<close>, in either mode and in every
  state. The constructor of \<open>Mock\<close> guards the same test with \<open>ser === null\<close>.
\<close>

lemma Interaction_new_not_object:
  "typeof raw \<noteq> ''object'' \<Longrightarrow>
   Interaction_new hp s raw isMock =
     (Inl (PactumInteractionError (Text ''Invalid interaction provided'')), s)"
  by (simp add: Interaction_new_def validateInteraction_def)

text \<open>C2, at the input \<open>null\<close>: construction fails with \<open>TypeError\<close>, not with a
  \<open>PactumInteractionError\<close>.\<close>

theorem Interaction_new_null:
  "Interaction_new hp s JNull isMock = (Inl TypeError, s)"
  by (simp add: Interaction_new_def validateInteraction_def)

subsection \<open>The flags of a constructed request\<close>

text \<open>
  C9: every constructed \<open>InteractionRequest\<close> has boolean \<open>ignoreBody\<close> and \<open>ignoreQuery\<close>
  fields. A flag the raw request gives as a boolean is taken as it is; for any other
  value (a truthy string, a number, nothing at all) the field is \<open>false\<close>.
\<close>

theorem InteractionRequest_flags_boolean:
  "InteractionRequest_new h request = Inr r \<Longrightarrow>
     typeof (ignoreBody r) = ''boolean'' \<and> typeof (ignoreQuery r) = ''boolean''
     \<and> (typeof (getp h request ''ignoreBody'') \<noteq> ''boolean'' \<longrightarrow> ignoreBody r = JBool False)
     \<and> (typeof (getp h request ''ignoreQuery'') \<noteq> ''boolean'' \<longrightarrow> ignoreQuery r = JBool False)
     \<and> (typeof (getp h request ''ignoreBody'') = ''boolean'' \<longrightarrow>
            ignoreBody r = getp h request ''ignoreBody'')
     \<and> (typeof (getp h request ''ignoreQuery'') = ''boolean'' \<longrightarrow>
            ignoreQuery r = getp h request ''ignoreQuery'')"
  by (auto simp: InteractionRequest_new_def split: if_splits)

text \<open>A request with \<open>ignoreBody: 'yes'\<close> and \<open>ignoreQuery: true\<close>.\<close>

theorem InteractionRequest_flags_boolean_witness:
  "\<exists>r. InteractionRequest_new
         [Obj [(''method'', DStr ''GET''), (''path'', DStr ''/api''),
               (''ignoreBody'', DStr ''yes''), (''ignoreQuery'', DBool True)]] (JRef 0) = Inr r
       \<and> ignoreBody r = JBool False \<and> ignoreQuery r = JBool True"
  using InteractionRequest_flags_boolean
    [of "[Obj [(''method'', DStr ''GET''), (''path'', DStr ''/api''),
               (''ignoreBody'', DStr ''yes''), (''ignoreQuery'', DBool True)]]" "JRef 0"]
  by (simp add: InteractionRequest_new_def)

subsection \<open>Defaults for id, port and consumer\<close>

text \<open>
  C8: on a constructed \<open>Interaction\<close>, a falsy id given by the caller (the empty string as
  much as an absent one) is replaced by the identifier the generator produces next, a
  falsy port (0, say) by the configured default mock port, and a falsy consumer by the
  configured consumer name. A truthy value is kept, and then no id is generated.
\<close>

theorem Interaction_new_defaults:
  "Interaction_new hp s raw isMock = (Inr I, s') \<Longrightarrow>
     (\<not> truthy (getp (heap s) raw ''id'') \<longrightarrow>
        id' I = getRandomId hp (generated s) \<and> generated s' = Suc (generated s))
   \<and> (truthy (getp (heap s) raw ''id'') \<longrightarrow>
        id' I = getp (heap s) raw ''id'' \<and> generated s' = generated s)
   \<and> (\<not> truthy (getp (heap s) raw ''port'') \<longrightarrow> port I = mock_port s)
   \<and> (truthy (getp (heap s) raw ''port'') \<longrightarrow> port I = getp (heap s) raw ''port'')
   \<and> (\<not> truthy (getp (heap s) raw ''consumer'') \<longrightarrow> consumer I = pact_consumer s)
   \<and> (truthy (getp (heap s) raw ''consumer'') \<longrightarrow>
        consumer I = getp (heap s) raw ''consumer'')"
  by (auto simp: Interaction_new_def Let_def js_or_def
      split: option.splits sum.splits prod.splits if_splits)

lemma Interaction_new_falsy_fields:
  "\<exists>I s'. Interaction_new plain_helper (fresh_world falsy_fields_heap) (JRef 0) True = (Inr I, s')"
  by (simp add: Interaction_new_def validateInteraction_def falsy_fields_heap_def fresh_world_def
      plain_helper_def InteractionRequest_new_def InteractionResponse_new_def
      ALLOWED_REQUEST_METHODS_def Let_def)

text \<open>A mock interaction with \<open>id: ''\<close>, \<open>port: 0\<close> and \<open>consumer: ''\<close>.\<close>

theorem Interaction_new_defaults_witness:
  "\<exists>I s'. Interaction_new plain_helper (fresh_world falsy_fields_heap) (JRef 0) True = (Inr I, s')
     \<and> id' I = JStr ''r'' \<and> generated s' = 1 \<and> port I = JNum 9393 \<and> consumer I = JStr ''consumer''"
proof -
  obtain I s' where
    ok: "Interaction_new plain_helper (fresh_world falsy_fields_heap) (JRef 0) True = (Inr I, s')"
    using Interaction_new_falsy_fields by blast
  have "id' I = JStr ''r'' \<and> generated s' = 1 \<and> port I = JNum 9393 \<and> consumer I = JStr ''consumer''"
    using Interaction_new_defaults [OF ok]
    by (simp add: falsy_fields_heap_def fresh_world_def plain_helper_def)
  with ok show ?thesis by blast
qed

subsection \<open>What construction leaves alone\<close>

lemma Interaction_new_world:
  assumes "Interaction_new hp s raw isMock = (r, s')"
  shows "\<exists>h' g'. s' = s\<lparr> heap := h', generated := g' \<rparr>"
proof (cases "validateInteraction (heap s) raw isMock")
  case (Some e)
  then have "s' = s" using assms by (simp add: Interaction_new_def)
  then have "s' = s\<lparr> heap := heap s, generated := generated s \<rparr>" by simp
  then show ?thesis by blast
next
  case None
  define s1 where "s1 = (if truthy (getp (heap s) raw ''id'') then s
                         else s\<lparr> generated := Suc (generated s) \<rparr>)"
  have s1: "\<exists>g'. s1 = s\<lparr> generated := g' \<rparr>"
  proof (cases "truthy (getp (heap s) raw ''id'')")
    case True
    then have "s1 = s\<lparr> generated := generated s \<rparr>" by (simp add: s1_def)
    then show ?thesis by blast
  next
    case False
    then show ?thesis by (auto simp: s1_def)
  qed
  then obtain g' where g': "s1 = s\<lparr> generated := g' \<rparr>" by blast
  show ?thesis
  proof (cases "InteractionRequest_new (heap s) (getp (heap s) raw ''withRequest'')")
    case (Inl e)
    then have "s' = s1"
      using assms None by (simp add: Interaction_new_def Let_def s1_def)
    then have "s' = s\<lparr> heap := heap s, generated := g' \<rparr>" using g' by simp
    then show ?thesis by blast
  next
    case (Inr request)
    obtain res h' where
      res: "InteractionResponse_new hp (heap s) (getp (heap s) raw ''willRespondWith'') = (res, h')"
      by (cases "InteractionResponse_new hp (heap s) (getp (heap s) raw ''willRespondWith'')")
    have "s' = s1\<lparr> heap := h' \<rparr>"
      using assms None Inr res
      by (cases res) (auto simp: Interaction_new_def Let_def s1_def)
    then have "s' = s\<lparr> heap := h', generated := g' \<rparr>" using g' by simp
    then show ?thesis by blast
  qed
qed

lemma Interaction_new_frame:
  assumes "Interaction_new hp s raw isMock = (r, s')"
  shows "server s' = server s" and "interactions s' = interactions s" and "store s' = store s"
    and "mock_port s' = mock_port s" and "pact_consumer s' = pact_consumer s"
  using Interaction_new_world [OF assms] by auto


subsection \<open>Batches of pact interactions\<close>

text \<open>
  The loop of \<open>addDefaultPactInteractions\<close> registers with the server only. Whatever the
  argument, the id table and the store are after the call what they were before.
\<close>

lemma pact_loop_frame:
  "interactions (snd (pact_loop hp s xs ids)) = interactions s
   \<and> store (snd (pact_loop hp s xs ids)) = store s"
proof (induction xs arbitrary: s ids)
  case Nil
  then show ?case by simp
next
  case (Cons x xs)
  obtain r s' where new: "Interaction_new hp s x False = (r, s')"
    by (cases "Interaction_new hp s x False")
  note fr = Interaction_new_frame(2,3) [OF new]
  show ?case
  proof (cases r)
    case (Inl e)
    with new fr show ?thesis by simp
  next
    case (Inr I)
    with new fr show ?thesis by (simp add: Cons.IH)
  qed
qed

lemma addDefaultPactInteractions_frame:
  "interactions (snd (addDefaultPactInteractions hp s arr)) = interactions s
   \<and> store (snd (addDefaultPactInteractions hp s arr)) = store s"
  by (simp add: addDefaultPactInteractions_def pact_loop_frame)

text \<open>
  C1 says the batch operation applies the single pact operation to each element, so that
  every interaction also enters the id table and reaches the store. On the batch of the
  one valid pact interaction \<open>p1\<close> the code returns the id and registers with the server,
  but the table has no entry for \<open>p1\<close> and the store is empty, while
  \<open>addDefaultPactInteraction\<close> on the same interaction fills both.
\<close>

theorem addDefaultPactInteractions_skips_table_and_store:
  "fst (addDefaultPactInteractions plain_helper (fresh_world pact_batch_heap) (JRef 3))
     = Inr [JStr ''p1'']
   \<and> length (server (snd (addDefaultPactInteractions plain_helper
                             (fresh_world pact_batch_heap) (JRef 3)))) = 1
   \<and> interactions (snd (addDefaultPactInteractions plain_helper
                           (fresh_world pact_batch_heap) (JRef 3))) (JStr ''p1'') = None
   \<and> store (snd (addDefaultPactInteractions plain_helper
                    (fresh_world pact_batch_heap) (JRef 3))) = []
   \<and> fst (addDefaultPactInteraction plain_helper (fresh_world pact_batch_heap) (JRef 0))
       = Inr (JStr ''p1'')
   \<and> interactions (snd (addDefaultPactInteraction plain_helper
                           (fresh_world pact_batch_heap) (JRef 0))) (JStr ''p1'') \<noteq> None
   \<and> length (store (snd (addDefaultPactInteraction plain_helper
                            (fresh_world pact_batch_heap) (JRef 0)))) = 1"
  by (simp add: addDefaultPactInteractions_def addDefaultPactInteraction_def isArray_def
      map_key_def elements_def Interaction_new_def validateInteraction_def
      InteractionRequest_new_def InteractionResponse_new_def ALLOWED_REQUEST_METHODS_def
      plain_helper_def fresh_world_def pact_batch_heap_def Let_def)

subsection \<open>The handler registry\<close>

text \<open>
  C5: for the registry of any kind, \<open>add(name, func)\<close> fails with the message
  \<open>`name` is required\<close> when the name is absent or the empty string, and with
  \<open>`func` is required\<close> when the name is a non-empty string and \<open>func\<close> is not a
  function; otherwise it stores the function under the name, replacing what was there,
  and a lookup of the name then returns it. \<open>get(name)\<close> on a name with no mapping
  fails with \<open>Custom <Kind> Handler Not Found - <name>\<close>, the label of the kind and the
  name as given, and returns the stored function otherwise.
\<close>

theorem handler_registry_contract:
  "(name = JUndefined \<or> name = JStr [] \<longrightarrow>
      handler_add r name func = Inl (HandlerError (Text ''`name` is required'')))
   \<and> (n \<noteq> [] \<and> typeof func \<noteq> ''function'' \<longrightarrow>
      handler_add r (JStr n) func = Inl (HandlerError (Text ''`func` is required'')))
   \<and> (n \<noteq> [] \<and> typeof func = ''function'' \<longrightarrow>
      handler_add r (JStr n) func = Inr (r(n \<mapsto> func))
      \<and> handler_get label (r(n \<mapsto> func)) (JStr n) = Inr func)
   \<and> (r n = None \<longrightarrow>
      handler_get label r (JStr n) =
        Inl (HandlerError (Text (''Custom '' @ label @ '' Handler Not Found - '' @ n))))
   \<and> (r n = Some f \<longrightarrow> handler_get label r (JStr n) = Inr f)"
  by (auto simp: handler_add_def handler_get_def template_def)

text \<open>The calls of the tests: no name, no function, and lookups of \<open>hello\<close>.\<close>

theorem handler_registry_contract_witness:
  "handler_add Map.empty JUndefined (JFun ''() => {}'')
     = Inl (HandlerError (Text ''`name` is required''))
   \<and> handler_add Map.empty (JStr ''hello'') JUndefined
     = Inl (HandlerError (Text ''`func` is required''))
   \<and> handler_get ''Data'' Map.empty (JStr ''hello'')
     = Inl (HandlerError (Text ''Custom Data Handler Not Found - hello''))
   \<and> handler_get ''Pact Interaction'' Map.empty (JStr ''hello'')
     = Inl (HandlerError (Text ''Custom Pact Interaction Handler Not Found - hello''))
   \<and> handler_get ''Data'' (Map.empty(''hello'' \<mapsto> JFun ''() => {}'')) (JStr ''hello'')
     = Inr (JFun ''() => {}'')"
  using handler_registry_contract
      [of JUndefined Map.empty "JFun ''() => {}''" "''hello''" "''Data''" "JFun ''() => {}''"]
    handler_registry_contract
      [of JUndefined Map.empty JUndefined "''hello''" "''Pact Interaction''" JUndefined]
    handler_registry_contract
      [of JUndefined "Map.empty(''hello'' \<mapsto> JFun ''() => {}'')" JUndefined "''hello''"
          "''Data''" "JFun ''() => {}''"]
  by simp

subsection \<open>Bulk removal\<close>

text \<open>
  C10: \<open>removeDefaultInteractions(port)\<close> validates nothing. Whatever the argument, it
  returns normally after one call of the server's bulk removal with the port (the
  configured default when the argument is \<open>undefined\<close>), and so never raises a
  configuration error. With a port that is not a number, \<open>start\<close>, \<open>stop\<close> and
  \<open>removeDefaultInteraction\<close> reject the call and call nothing on the server, and so
  does \<open>setDefaultPort\<close>, which has no default. What they throw is a
  \<open>PactumConfigurationError\<close> when the value written into the message can be converted
  to a string, and the \<open>TypeError\<close> of that conversion when it cannot;
  \<open>removeDefaultInteraction\<close> tests the id first and writes the id or the port.
\<close>

theorem removeDefaultInteractions_no_validation:
  "removeDefaultInteractions s p =
     (Inr (), s\<lparr> server := server s @ [RemoveDefaultInteractions (port_or_default s p)] \<rparr>)
   \<and> (typeof (port_or_default s p) \<noteq> ''number'' \<longrightarrow>
        (\<exists>e. start s p = (Inl e, s)
            \<and> (if printable (heap s) (port_or_default s p)
                then \<exists>m. e = PactumConfigurationError m else e = TypeError))
      \<and> (\<exists>e. stop s p = (Inl e, s)
            \<and> (if printable (heap s) (port_or_default s p)
                then \<exists>m. e = PactumConfigurationError m else e = TypeError))
      \<and> (\<exists>e. removeDefaultInteraction s i p = (Inl e, s)
            \<and> (e = TypeError \<or> (\<exists>m. e = PactumConfigurationError m))
            \<and> (printable (heap s) i \<and> printable (heap s) (port_or_default s p) \<longrightarrow>
                 (\<exists>m. e = PactumConfigurationError m))))
   \<and> (typeof p \<noteq> ''number'' \<longrightarrow>
        (\<exists>e. setDefaultPort s p = (Inl e, s)
            \<and> (if printable (heap s) p
                then \<exists>m. e = PactumConfigurationError m else e = TypeError)))"
proof (intro conjI impI)
  show "removeDefaultInteractions s p =
     (Inr (), s\<lparr> server := server s @ [RemoveDefaultInteractions (port_or_default s p)] \<rparr>)"
    by (simp add: removeDefaultInteractions_def)
next
  assume n: "typeof (port_or_default s p) \<noteq> ''number''"
  let ?port = "port_or_default s p"
  have pr: "\<And>pre. if printable (heap s) ?port
              then \<exists>m. thrown PactumConfigurationError (heap s) pre ?port
                         = PactumConfigurationError m
              else thrown PactumConfigurationError (heap s) pre ?port = TypeError"
    using thrown_printable [of "heap s" ?port PactumConfigurationError]
      thrown_unprintable [of "heap s" ?port PactumConfigurationError]
    by (cases "printable (heap s) ?port") auto
  show "\<exists>e. start s p = (Inl e, s)
            \<and> (if printable (heap s) ?port
                then \<exists>m. e = PactumConfigurationError m else e = TypeError)"
    using n pr by (simp add: start_def Let_def)
  show "\<exists>e. stop s p = (Inl e, s)
            \<and> (if printable (heap s) ?port
                then \<exists>m. e = PactumConfigurationError m else e = TypeError)"
    using n pr by (simp add: stop_def Let_def)
  have id: "\<And>pre. printable (heap s) i \<Longrightarrow>
              \<exists>m. thrown PactumConfigurationError (heap s) pre i = PactumConfigurationError m"
    using thrown_printable [of "heap s" i PactumConfigurationError] by auto
  have any: "\<And>pre v. thrown PactumConfigurationError (heap s) pre v = TypeError
                \<or> (\<exists>m. thrown PactumConfigurationError (heap s) pre v = PactumConfigurationError m)"
    using thrown_cases [of PactumConfigurationError "heap s"] by blast
  show "\<exists>e. removeDefaultInteraction s i p = (Inl e, s)
            \<and> (e = TypeError \<or> (\<exists>m. e = PactumConfigurationError m))
            \<and> (printable (heap s) i \<and> printable (heap s) ?port \<longrightarrow>
                 (\<exists>m. e = PactumConfigurationError m))"
  proof (cases "typeof i \<noteq> ''string'' \<or> \<not> truthy i")
    case True
    then show ?thesis
      using any [of "''Invalid interaction id - ''" i] id [of "''Invalid interaction id - ''"]
      by (simp add: removeDefaultInteraction_def Let_def)
  next
    case False
    then show ?thesis
      using n any [of "''Invalid port number - ''" ?port] pr [of "''Invalid port number - ''"]
      by (auto simp: removeDefaultInteraction_def Let_def split: if_splits)
  qed
next
  assume n: "typeof p \<noteq> ''number''"
  show "\<exists>e. setDefaultPort s p = (Inl e, s)
            \<and> (if printable (heap s) p
                then \<exists>m. e = PactumConfigurationError m else e = TypeError)"
    using n thrown_printable [of "heap s" p PactumConfigurationError]
      thrown_unprintable [of "heap s" p PactumConfigurationError]
    by (cases "printable (heap s) p") (auto simp: setDefaultPort_def)
qed

text \<open>The port \<open>'8080'\<close>, a string, and the port \<open>{ toString: null }\<close>.\<close>

theorem removeDefaultInteractions_no_validation_witness:
  "fst (removeDefaultInteractions (fresh_world []) (JStr ''8080'')) = Inr ()
   \<and> server (snd (removeDefaultInteractions (fresh_world []) (JStr ''8080'')))
       = [RemoveDefaultInteractions (JStr ''8080'')]
   \<and> fst (start (fresh_world []) (JStr ''8080''))
       = Inl (PactumConfigurationError
               (Text ''Invalid port number given to start the mock server - 8080''))
   \<and> fst (stop (fresh_world []) (JStr ''8080''))
       = Inl (PactumConfigurationError
               (Text ''Invalid port number given to stop the mock server - 8080''))
   \<and> fst (removeDefaultInteraction (fresh_world []) (JStr ''abc'') (JStr ''8080''))
       = Inl (PactumConfigurationError (Text ''Invalid port number - 8080''))
   \<and> fst (setDefaultPort (fresh_world []) (JStr ''8080''))
       = Inl (PactumConfigurationError (Text ''Invalid default port number - 8080''))
   \<and> fst (removeDefaultInteractions (fresh_world no_toString_heap) (JRef 0)) = Inr ()
   \<and> fst (start (fresh_world no_toString_heap) (JRef 0)) = Inl TypeError"
  using removeDefaultInteractions_no_validation [of "fresh_world []" "JStr ''8080''" "JStr ''abc''"]
    removeDefaultInteractions_no_validation
      [of "fresh_world no_toString_heap" "JRef 0" "JStr ''abc''"]
  by (simp add: fresh_world_def port_or_default_def start_def stop_def removeDefaultInteraction_def
      setDefaultPort_def removeDefaultInteractions_def no_toString_heap_def thrown_def
      template_def js_ToString_def)

subsection \<open>Request methods outside the enumeration\<close>








subsection \<open>The ignore flags\<close>


lemma interaction_failure_thrown [simp]:
  "interaction_failure (thrown PactumInteractionError h pre v)"
  using thrown_cases [of PactumInteractionError h pre v]
  by (auto simp: interaction_failure_def)

















subsection \<open>Batches of mock interactions\<close>











subsection \<open>The copy of a response body\<close>

text \<open>A tree that JSON can express is written and read back unchanged.\<close>

lemma encode_json_value:
  "json_value t \<Longrightarrow> \<exists>j. encode t = Some j \<and> decode j = t"
proof (induction t)
  case (Leaf p)
  then show ?case by (cases p) simp_all
next
  case (TArr ts)
  have "\<forall>t \<in> set ts. \<exists>j. encode t = Some j \<and> decode j = t"
    using TArr by (auto simp: list_all_iff)
  then have "map (decode \<circ> (\<lambda>t. case encode t of None \<Rightarrow> JsNull | Some j \<Rightarrow> j)) ts = ts"
    by (induction ts) auto
  then show ?case by simp
next
  case (TObj ps)
  have "\<forall>(k, t) \<in> set ps. \<exists>j. encode t = Some j \<and> decode j = t"
    using TObj by (fastforce simp: list_all_iff)
  then have "map (\<lambda>(k, j). (k, decode j))
               (concat (map (\<lambda>(k, t). case encode t of None \<Rightarrow> [] | Some j \<Rightarrow> [(k, j)]) ps)) = ps"
    by (induction ps) auto
  then show ?case by simp
qed

text \<open>
  What \<open>JSON.parse\<close> builds lies wholly in the new part of the heap: it unfolds to the
  tree of the text in every heap that holds the new objects, whatever that heap has at
  the older addresses.
\<close>

lemma same_on_prefix: "same_on n (h1 @ ext) H \<Longrightarrow> same_on n h1 H"
  by (auto simp: same_on_def nth_append)

lemma same_on_later: "same_on n h' H \<Longrightarrow> n \<le> n' \<Longrightarrow> same_on n' h' H"
  by (auto simp: same_on_def)

lemma deep_new_array:
  assumes "same_on n (h1 @ [Arr vs]) H" and "outside st n (Suc (length h1))" and "n \<le> length h1"
    and "those (map (deep H (length h1 # st)) vs) = Some ts"
  shows "deep H st (Ref (length h1)) = Some (TArr ts)"
proof -
  have "length h1 \<notin> set st" using assms(2,3) by (auto simp: outside_def)
  moreover have "length h1 < length H" using assms(1) by (simp add: same_on_def)
  moreover have "H ! length h1 = Arr vs" using assms(1,3) by (simp add: same_on_def)
  ultimately show ?thesis using assms(4) by simp
qed

lemma deep_new_object:
  assumes "same_on n (h1 @ [Obj qs]) H" and "outside st n (Suc (length h1))" and "n \<le> length h1"
    and "those (map (\<lambda>(k, v). map_option (Pair k) (deep H (length h1 # st) v)) qs) = Some ps"
  shows "deep H st (Ref (length h1)) = Some (TObj ps)"
proof -
  have "length h1 \<notin> set st" using assms(2,3) by (auto simp: outside_def)
  moreover have "length h1 < length H" using assms(1) by (simp add: same_on_def)
  moreover have "H ! length h1 = Obj qs" using assms(1,3) by (simp add: same_on_def)
  ultimately show ?thesis using assms(4) by simp
qed

lemma alloc_deep:
  "alloc h j = (h', v) \<Longrightarrow>
     (\<exists>new. h' = h @ new) \<and>
     (\<forall>H st. same_on (length h) h' H \<longrightarrow> outside st (length h) (length h') \<longrightarrow>
        deep H st v = Some (decode j))"
  "alloc_list h js = (h', vs) \<Longrightarrow>
     (\<exists>new. h' = h @ new) \<and>
     (\<forall>H st. same_on (length h) h' H \<longrightarrow> outside st (length h) (length h') \<longrightarrow>
        those (map (deep H st) vs) = Some (map decode js))"
  "alloc_props h ps = (h', qs) \<Longrightarrow>
     (\<exists>new. h' = h @ new) \<and>
     (\<forall>H st. same_on (length h) h' H \<longrightarrow> outside st (length h) (length h') \<longrightarrow>
        those (map (\<lambda>(k, v). map_option (Pair k) (deep H st v)) qs)
          = Some (map (\<lambda>(k, j). (k, decode j)) ps))"
proof (induction h j and h js and h ps arbitrary: h' v and h' vs and h' qs
    rule: alloc_alloc_list_alloc_props.induct)
  case (6 h js)
  obtain h1 vs where l: "alloc_list h js = (h1, vs)" by (cases "alloc_list h js")
  with "6.prems" have h': "h' = h1 @ [Arr vs]" and v: "v = Ref (length h1)" by simp_all
  note ih = "6.IH" [OF l]
  from ih obtain new where new: "h1 = h @ new" by (elim conjE exE)
  note sub = ih [THEN conjunct2, rule_format]
  have "h' = h @ (new @ [Arr vs])" using h' new by simp
  then have ex: "\<exists>new. h' = h @ new" by (rule exI)
  have "deep H st v = Some (decode (JsArr js))"
    if H: "same_on (length h) h' H" and st: "outside st (length h) (length h')" for H st
  proof -
    have le: "length h \<le> length h1" using new by simp
    have "same_on (length h) h1 H" using H unfolding h' by (rule same_on_prefix)
    moreover have "outside (length h1 # st) (length h) (length h1)"
      using st unfolding h' outside_def by auto
    ultimately have "those (map (deep H (length h1 # st)) vs) = Some (map decode js)"
      by (rule sub)
    then show ?thesis
      using deep_new_array [of "length h" h1 vs H st "map decode js"] H st le
      unfolding h' v by simp
  qed
  with ex show ?case by (intro conjI allI impI)
next
  case (7 h ps)
  obtain h1 qs where l: "alloc_props h ps = (h1, qs)" by (cases "alloc_props h ps")
  with "7.prems" have h': "h' = h1 @ [Obj qs]" and v: "v = Ref (length h1)" by simp_all
  note ih = "7.IH" [OF l]
  from ih obtain new where new: "h1 = h @ new" by (elim conjE exE)
  note sub = ih [THEN conjunct2, rule_format]
  have "h' = h @ (new @ [Obj qs])" using h' new by simp
  then have ex: "\<exists>new. h' = h @ new" by (rule exI)
  have "deep H st v = Some (decode (JsObj ps))"
    if H: "same_on (length h) h' H" and st: "outside st (length h) (length h')" for H st
  proof -
    have le: "length h \<le> length h1" using new by simp
    have "same_on (length h) h1 H" using H unfolding h' by (rule same_on_prefix)
    moreover have "outside (length h1 # st) (length h) (length h1)"
      using st unfolding h' outside_def by auto
    ultimately have "those (map (\<lambda>(k, v). map_option (Pair k) (deep H (length h1 # st) v)) qs)
          = Some (map (\<lambda>(k, j). (k, decode j)) ps)"
      by (rule sub)
    then show ?thesis
      using deep_new_object [of "length h" h1 qs H st "map (\<lambda>(k, j). (k, decode j)) ps"] H st le
      unfolding h' v by simp
  qed
  with ex show ?case by (intro conjI allI impI)
next
  case (9 h j js)
  obtain h1 v1 where a: "alloc h j = (h1, v1)" by (cases "alloc h j")
  obtain h2 vs' where l: "alloc_list h1 js = (h2, vs')" by (cases "alloc_list h1 js")
  from "9.prems" a l have h': "h' = h2" and vs: "vs = v1 # vs'" by simp_all
  note ih1 = "9.IH"(1) [OF a] and ih2 = "9.IH"(2) [OF a [symmetric] l]
  from ih1 obtain n1 where n1: "h1 = h @ n1" by (elim conjE exE)
  from ih2 obtain n2 where n2: "h2 = h1 @ n2" by (elim conjE exE)
  note d1 = ih1 [THEN conjunct2, rule_format] and d2 = ih2 [THEN conjunct2, rule_format]
  have "h' = h @ (n1 @ n2)" using h' n1 n2 by simp
  then have ex: "\<exists>new. h' = h @ new" by (rule exI)
  have "those (map (deep H st) vs) = Some (map decode (j # js))"
    if H: "same_on (length h) h' H" and st: "outside st (length h) (length h')" for H st
  proof -
    have "same_on (length h) h1 H" using H unfolding h' n2 by (rule same_on_prefix)
    moreover have "outside st (length h) (length h1)"
      using st unfolding h' n2 outside_def by auto
    ultimately have "deep H st v1 = Some (decode j)" by (rule d1)
    moreover have "same_on (length h1) h2 H"
      using H unfolding h' by (rule same_on_later) (simp add: n1)
    moreover have "outside st (length h1) (length h2)"
      using st unfolding h' n1 outside_def by auto
    ultimately show ?thesis using d2 [of H st] by (simp add: vs)
  qed
  with ex show ?case by (intro conjI allI impI)
next
  case (11 h k j ps)
  obtain h1 v1 where a: "alloc h j = (h1, v1)" by (cases "alloc h j")
  obtain h2 qs' where l: "alloc_props h1 ps = (h2, qs')" by (cases "alloc_props h1 ps")
  from "11.prems" a l have h': "h' = h2" and qs: "qs = (k, v1) # qs'" by simp_all
  note ih1 = "11.IH"(1) [OF a] and ih2 = "11.IH"(2) [OF a [symmetric] l]
  from ih1 obtain n1 where n1: "h1 = h @ n1" by (elim conjE exE)
  from ih2 obtain n2 where n2: "h2 = h1 @ n2" by (elim conjE exE)
  note d1 = ih1 [THEN conjunct2, rule_format] and d2 = ih2 [THEN conjunct2, rule_format]
  have "h' = h @ (n1 @ n2)" using h' n1 n2 by simp
  then have ex: "\<exists>new. h' = h @ new" by (rule exI)
  have "those (map (\<lambda>(k, v). map_option (Pair k) (deep H st v)) qs)
          = Some (map (\<lambda>(k, j). (k, decode j)) ((k, j) # ps))"
    if H: "same_on (length h) h' H" and st: "outside st (length h) (length h')" for H st
  proof -
    have "same_on (length h) h1 H" using H unfolding h' n2 by (rule same_on_prefix)
    moreover have "outside st (length h) (length h1)"
      using st unfolding h' n2 outside_def by auto
    ultimately have "deep H st v1 = Some (decode j)" by (rule d1)
    moreover have "same_on (length h1) h2 H"
      using H unfolding h' by (rule same_on_later) (simp add: n1)
    moreover have "outside st (length h1) (length h2)"
      using st unfolding h' n1 outside_def by auto
    ultimately show ?thesis using d2 [of H st] by (simp add: qs)
  qed
  with ex show ?case by (intro conjI allI impI)
qed simp_all

lemma same_on_refl: "same_on n h h"
  by (simp add: same_on_def)

lemma deep_ref_in_heap: "deep h st (Ref a) = Some t \<Longrightarrow> a < length h"
  by (simp split: if_splits)

lemma deep_ref_structured:
  "deep h st (Ref a) = Some t \<Longrightarrow> (\<exists>ts. t = TArr ts) \<or> (\<exists>ps. t = TObj ps)"
  by (auto split: if_splits obj.splits)

lemma alloc_structured_fresh:
  assumes "alloc h j = (h', v)" and "(\<exists>js. j = JsArr js) \<or> (\<exists>ps. j = JsObj ps)"
  shows "\<exists>c. v = Ref c \<and> length h \<le> c"
proof -
  from assms(2) show ?thesis
  proof
    assume "\<exists>js. j = JsArr js"
    then obtain js where j: "j = JsArr js" by blast
    obtain h1 vs where l: "alloc_list h js = (h1, vs)" by (cases "alloc_list h js")
    from alloc_deep(2) [OF l] obtain new where "h1 = h @ new" by (elim conjE exE)
    then show ?thesis using assms(1) l unfolding j by auto
  next
    assume "\<exists>ps. j = JsObj ps"
    then obtain ps where j: "j = JsObj ps" by blast
    obtain h1 qs where l: "alloc_props h ps = (h1, qs)" by (cases "alloc_props h ps")
    from alloc_deep(3) [OF l] obtain new where "h1 = h @ new" by (elim conjE exE)
    then show ?thesis using assms(1) l unfolding j by auto
  qed
qed

lemma decode_structured:
  "(\<exists>ts. decode j = TArr ts) \<or> (\<exists>ps. decode j = TObj ps) \<Longrightarrow>
   (\<exists>js. j = JsArr js) \<or> (\<exists>ps. j = JsObj ps)"
  by (cases j) auto

text \<open>
  C4 as stated fails for a body that JSON cannot express: the copy of
  \<open>{ name: undefined }\<close> is the empty object, which is not deep-equal to the body.
\<close>

theorem rawBody_drops_undefined_member_counterexample:
  "getp undefined_member_heap (JRef 0) ''body'' = JRef 1
   \<and> deep undefined_member_heap [] (Ref 1) = Some (TObj [(''name'', Leaf PUndefined)])
   \<and> InteractionResponse_new plain_helper undefined_member_heap (JRef 0)
       = (Inr \<lparr> status = JNum 200, headers = JUndefined, rawBody = JRef 2, body = JRef 1 \<rparr>,
          undefined_member_heap @ [Obj []])
   \<and> deep (undefined_member_heap @ [Obj []]) [] (Ref 2) = Some (TObj [])"
  by (simp add: InteractionResponse_new_def JSON_stringify_def JSON_parse_def plain_helper_def
      undefined_member_heap_def Let_def)

text \<open>
  C4, amended: for every structured response body \<open>B\<close> that consists of values JSON
  writes and reads back unchanged (\<open>null\<close>, booleans, strings, finite numbers other than
  \<open>-0\<close>, and arrays and plain objects of such, with no cycle), the constructor succeeds;
  \<open>rawBody\<close> is a reference to an object that did not exist before, so not \<open>B\<close>; it
  unfolds to the same tree as \<open>B\<close> did, in the heap the constructor leaves and in every
  heap that differs from it only in objects that existed before the call, the caller's
  among them; and \<open>body\<close> is the result of the transform on \<open>B\<close>.
\<close>

theorem InteractionResponse_rawBody_copy:
  assumes "getp h response ''body'' = JRef a"
    and "deep h [] (Ref a) = Some t"
    and "json_value t"
  shows "\<exists>res h1 c.
          InteractionResponse_new hp h response
            = (Inr res, h1 @ fst (setValueFromMatcher hp h1 (JRef a)))
        \<and> take (length h) h1 = h
        \<and> rawBody res = JRef c \<and> length h \<le> c \<and> c \<noteq> a
        \<and> deep (h1 @ fst (setValueFromMatcher hp h1 (JRef a))) [] (Ref c) = Some t
        \<and> (\<forall>H. same_on (length h) (h1 @ fst (setValueFromMatcher hp h1 (JRef a))) H \<longrightarrow>
               deep H [] (Ref c) = Some t)
        \<and> body res = snd (setValueFromMatcher hp h1 (JRef a))"
proof -
  have resp: "response \<noteq> JNull" "response \<noteq> JUndefined"
    using assms(1) by auto
  obtain j where j: "encode t = Some j" and dj: "decode j = t"
    using encode_json_value [OF assms(3)] by blast
  obtain h1 raw where al: "alloc h j = (h1, raw)" by (cases "alloc h j")
  obtain new v where tr: "setValueFromMatcher hp h1 (JRef a) = (new, v)"
    by (cases "setValueFromMatcher hp h1 (JRef a)")
  define res where
    "res = \<lparr> status = getp h response ''status'', headers = getp h response ''headers'',
             rawBody = Data raw, body = v \<rparr>"
  have run: "InteractionResponse_new hp h response = (Inr res, h1 @ new)"
    using resp assms(1,2) j al tr
    by (simp add: InteractionResponse_new_def JSON_stringify_def JSON_parse_def Let_def res_def)
  note ad = alloc_deep(1) [OF al]
  from ad obtain n1 where n1: "h1 = h @ n1" by (elim conjE exE)
  have unfold: "deep H [] raw = Some t" if "same_on (length h) h1 H" for H
    using ad [THEN conjunct2, rule_format, of H "[]"] that by (simp add: outside_def dj)
  have "(\<exists>js. j = JsArr js) \<or> (\<exists>ps. j = JsObj ps)"
    using deep_ref_structured [OF assms(2)] decode_structured [of j] unfolding dj by blast
  then obtain c where c: "raw = Ref c" "length h \<le> c"
    using alloc_structured_fresh [OF al] by blast
  have ca: "c \<noteq> a" using deep_ref_in_heap [OF assms(2)] c(2) by simp
  have trf: "fst (setValueFromMatcher hp h1 (JRef a)) = new"
    and trs: "snd (setValueFromMatcher hp h1 (JRef a)) = v"
    using tr by simp_all
  have rb: "rawBody res = Data raw" and bd: "body res = v" by (simp_all add: res_def)
  have c1: "InteractionResponse_new hp h response
              = (Inr res, h1 @ fst (setValueFromMatcher hp h1 (JRef a)))"
    unfolding trf by (rule run)
  have c2: "take (length h) h1 = h" using n1 by simp
  have c3: "rawBody res = JRef c" unfolding rb c(1) by (rule refl)
  have c4: "deep (h1 @ fst (setValueFromMatcher hp h1 (JRef a))) [] (Ref c) = Some t"
    unfolding c(1) [symmetric] by (rule unfold) (rule same_on_prefix [OF same_on_refl])
  have c5: "\<forall>H. same_on (length h) (h1 @ fst (setValueFromMatcher hp h1 (JRef a))) H \<longrightarrow>
               deep H [] (Ref c) = Some t"
    unfolding c(1) [symmetric] by (intro allI impI unfold) (rule same_on_prefix)
  have c6: "body res = snd (setValueFromMatcher hp h1 (JRef a))"
    unfolding bd trs by (rule refl)
  show ?thesis
    by (intro exI conjI) (rule c1, rule c2, rule c3, rule c(2), rule ca, rule c4, rule c5, rule c6)
qed

text \<open>
  The body \<open>{ name: 'pactum', tags: ['mock', null] }\<close>; afterwards the caller empties
  both its object and its array.
\<close>

lemma nested_body_response:
  "InteractionResponse_new plain_helper nested_body_heap (JRef 0)
     = (Inr \<lparr> status = JNum 200, headers = JUndefined, rawBody = JRef 4, body = JRef 1 \<rparr>,
        nested_body_heap
          @ [Arr [DStr ''mock'', DNull], Obj [(''name'', DStr ''pactum''), (''tags'', Ref 3)]])"
  by (simp add: InteractionResponse_new_def JSON_stringify_def JSON_parse_def plain_helper_def
      nested_body_heap_def Let_def)

theorem InteractionResponse_rawBody_copy_witness:
  "\<exists>res h'. InteractionResponse_new plain_helper nested_body_heap (JRef 0) = (Inr res, h')
     \<and> rawBody res = JRef 4 \<and> body res = JRef 1
     \<and> deep h' [] (Ref 4)
         = Some (TObj [(''name'', Leaf (PStr ''pactum'')),
                       (''tags'', TArr [Leaf (PStr ''mock''), Leaf PNull])])
     \<and> deep (h'[1 := Obj [], 2 := Arr []]) [] (Ref 4)
         = Some (TObj [(''name'', Leaf (PStr ''pactum'')),
                       (''tags'', TArr [Leaf (PStr ''mock''), Leaf PNull])])"
proof -
  let ?t = "TObj [(''name'', Leaf (PStr ''pactum'')),
                  (''tags'', TArr [Leaf (PStr ''mock''), Leaf PNull])]"
  have a1: "getp nested_body_heap (JRef 0) ''body'' = JRef 1"
    by (simp add: nested_body_heap_def)
  have a2: "deep nested_body_heap [] (Ref 1) = Some ?t"
    by (simp add: nested_body_heap_def)
  have a3: "json_value ?t" by simp
  from InteractionResponse_rawBody_copy [OF a1 a2 a3, of plain_helper]
  obtain res h1 c where
    run: "InteractionResponse_new plain_helper nested_body_heap (JRef 0)
            = (Inr res, h1 @ fst (setValueFromMatcher plain_helper h1 (JRef 1)))"
    and c: "rawBody res = JRef c"
    and same: "deep (h1 @ fst (setValueFromMatcher plain_helper h1 (JRef 1))) [] (Ref c)
                 = Some ?t"
    and mutated: "\<forall>H. same_on (length nested_body_heap)
                        (h1 @ fst (setValueFromMatcher plain_helper h1 (JRef 1))) H \<longrightarrow>
                      deep H [] (Ref c) = Some ?t"
    by blast
  define h' where "h' = h1 @ fst (setValueFromMatcher plain_helper h1 (JRef 1))"
  have res: "res = \<lparr> status = JNum 200, headers = JUndefined, rawBody = JRef 4, body = JRef 1 \<rparr>"
    and h': "h' = nested_body_heap
          @ [Arr [DStr ''mock'', DNull], Obj [(''name'', DStr ''pactum''), (''tags'', Ref 3)]]"
    using run nested_body_response unfolding h'_def by simp_all
  have c4: "c = 4" using c by (simp add: res)
  have "same_on (length nested_body_heap) h' (h'[1 := Obj [], 2 := Arr []])"
    unfolding h' by (auto simp: same_on_def nested_body_heap_def nth_list_update)
  then have "deep (h'[1 := Obj [], 2 := Arr []]) [] (Ref 4) = Some ?t"
    using mutated unfolding h'_def c4 by blast
  moreover have "deep h' [] (Ref 4) = Some ?t" using same unfolding h'_def c4 .
  moreover have "InteractionResponse_new plain_helper nested_body_heap (JRef 0) = (Inr res, h')"
    using run unfolding h'_def .
  moreover have "rawBody res = JRef 4" "body res = JRef 1" by (simp_all add: res)
  ultimately show ?thesis by blast
qed

end
